theory Spec2Isabelle
  imports Complex_Main "HOL-Library.Monad_Syntax"
begin

section \<open>Tensors of the Stokes problem\<close>

text \<open>
  The problem file \<^verbatim>\<open>examples/problems/stokes.py\<close> computes with two-dimensional
  tensors: one row per sample point, one column per named quantity. The network output
  \<^verbatim>\<open>output_\<close> is a node of the automatic-differentiation graph of \<^verbatim>\<open>input_\<close>: each
  of its rows is a function of the same row of \<^verbatim>\<open>input_\<close>. A column is therefore
  modelled as a function from the coordinates of a sample point to the entry of that
  column in the row of the sample, and a tensor as the list of its columns. Entries are
  real numbers and the arithmetic on them is exact; the rounding of the tensors' number
  format is modelled where a residual computes with it, for \<open>inlet\<close>, in the section
  on binary32 arithmetic.
\<close>

type_synonym coords = "real list"

type_synonym column = "coords \<Rightarrow> real"

type_synonym Tensor = "column list"

record LabelTensor =
  labels :: "string list"
  tensor :: Tensor

text \<open>The row of a tensor at the sample point with coordinates \<open>p\<close>.\<close>

definition row :: "Tensor \<Rightarrow> coords \<Rightarrow> real list" where
  "row t p = map (\<lambda>f. f p) t"

text \<open>
  Modelled from the spec: the constructor \<^verbatim>\<open>LabelTensor(x, labels)\<close> of the framework,
  which is not part of the problem file. It names the columns of \<open>x\<close> and fails on a
  schema mismatch (a number of labels different from the number of columns).
\<close>

definition mk_LabelTensor :: "Tensor \<Rightarrow> string list \<Rightarrow> LabelTensor option" where
  "mk_LabelTensor x ls =
     (if length x = length ls then Some \<lparr>labels = ls, tensor = x\<rparr> else None)"

text \<open>
  Modelled from the spec: \<^verbatim>\<open>LabelTensor.extract\<close>, the extraction of columns by field
  name, which is not part of the problem file. A name is looked up from the left of the
  label list; a name that is absent is an error (\<open>None\<close>).
\<close>

definition column_of :: "LabelTensor \<Rightarrow> string \<Rightarrow> column option" where
  "column_of t l = map_of (zip (labels t) (tensor t)) l"

definition extract_fields :: "LabelTensor \<Rightarrow> string list \<Rightarrow> LabelTensor option" where
  "extract_fields t ls =
     (case those (map (column_of t) ls) of
        None \<Rightarrow> None
      | Some cs \<Rightarrow> Some \<lparr>labels = ls, tensor = cs\<rparr>)"

text \<open>
  The tensor of the sample coordinates themselves (a leaf of the graph): its \<open>j\<close>-th
  column is the \<open>j\<close>-th coordinate of the sample.
\<close>

definition coordinates :: "string list \<Rightarrow> LabelTensor" where
  "coordinates ls = \<lparr>labels = ls, tensor = map (\<lambda>j p. p ! j) [0..<length ls]\<rparr>"

subsection \<open>Arithmetic of the tensor library\<close>

text \<open>
  Arithmetic with a Python number acts on every entry. Arithmetic of two tensors with the
  same rows acts entry by entry when the widths agree, repeats the single column of a
  tensor of width one, and is an error otherwise.
\<close>

definition sub_scalar :: "Tensor \<Rightarrow> real \<Rightarrow> Tensor" where
  "sub_scalar t v = map (\<lambda>f p. f p - v) t"

definition rsub_scalar :: "real \<Rightarrow> Tensor \<Rightarrow> Tensor" where
  "rsub_scalar v t = map (\<lambda>f p. v - f p) t"

definition rmul_scalar :: "real \<Rightarrow> Tensor \<Rightarrow> Tensor" where
  "rmul_scalar v t = map (\<lambda>f p. v * f p) t"

definition pow_scalar :: "Tensor \<Rightarrow> nat \<Rightarrow> Tensor" where
  "pow_scalar t n = map (\<lambda>f p. f p ^ n) t"

definition neg :: "Tensor \<Rightarrow> Tensor" where
  "neg t = map (\<lambda>f p. - f p) t"

definition broadcast ::
  "('a \<Rightarrow> 'b \<Rightarrow> 'c) \<Rightarrow> (coords \<Rightarrow> 'a) list \<Rightarrow> (coords \<Rightarrow> 'b) list \<Rightarrow> (coords \<Rightarrow> 'c) list option" where
  "broadcast h a b =
     (if length a = length b then Some (map2 (\<lambda>u v p. h (u p) (v p)) a b)
      else if length a = 1 then Some (map (\<lambda>v p. h (hd a p) (v p)) b)
      else if length b = 1 then Some (map (\<lambda>u p. h (u p) (hd b p)) a)
      else None)"

definition add :: "Tensor \<Rightarrow> Tensor \<Rightarrow> Tensor option" where
  "add a b = broadcast (+) a b"

definition sub :: "Tensor \<Rightarrow> Tensor \<Rightarrow> Tensor option" where
  "sub a b = broadcast (-) a b"

definition hstack :: "Tensor list \<Rightarrow> Tensor" where
  "hstack ts = concat ts"

subsection \<open>Differential operators\<close>

text \<open>
  The derivative of a real function at a point, and the partial derivative of a column
  with respect to the \<open>j\<close>-th coordinate of the sample: what automatic differentiation
  with respect to the \<open>j\<close>-th column of the coordinate tensor computes.
\<close>

definition derivative :: "(real \<Rightarrow> real) \<Rightarrow> real \<Rightarrow> real" where
  "derivative f x = (THE D. (f has_real_derivative D) (at x))"

definition partial :: "nat \<Rightarrow> column \<Rightarrow> column" where
  "partial j f = (\<lambda>p. derivative (\<lambda>t. f (p[j := t])) (p ! j))"

text \<open>
  Modelled from the spec: the operators \<^verbatim>\<open>grad\<close>, \<^verbatim>\<open>div\<close> and \<^verbatim>\<open>nabla\<close> of
  \<^verbatim>\<open>pina.operators\<close>, which are not part of the problem file. The second argument
  is the coordinate tensor; differentiation is with respect to its columns, one
  coordinate of the sample each.
  \<^item> \<open>grad\<close> is the gradient of a scalar field (a tensor of one column): one column
    per coordinate, holding the partial derivative with respect to it;
  \<^item> \<open>div\<close> is the divergence of a vector field with as many components as there are
    coordinates: the sum of the partial derivatives of the \<open>j\<close>-th component with
    respect to the \<open>j\<close>-th coordinate, in one column;
  \<^item> \<open>nabla\<close> is the Laplacian of a scalar field: the sum of its second partial
    derivatives, in one column.
  The spec names no other use of the operators; any other shape is an error here.
\<close>

definition grad :: "LabelTensor \<Rightarrow> LabelTensor \<Rightarrow> Tensor option" where
  "grad output input =
     (case tensor output of
        [f] \<Rightarrow> Some (map (\<lambda>j. partial j f) [0..<length (labels input)])
      | _ \<Rightarrow> None)"

definition div_op :: "LabelTensor \<Rightarrow> LabelTensor \<Rightarrow> Tensor option" where
  "div_op output input =
     (let n = length (labels input); fs = tensor output in
      if length fs = n
      then Some [\<lambda>p. sum_list (map (\<lambda>j. partial j (fs ! j) p) [0..<n])]
      else None)"

definition nabla :: "LabelTensor \<Rightarrow> LabelTensor \<Rightarrow> Tensor option" where
  "nabla output input =
     (case tensor output of
        [f] \<Rightarrow> Some [\<lambda>p. sum_list (map (\<lambda>j. partial j (partial j f) p)
                                        [0..<length (labels input)])]
      | _ \<Rightarrow> None)"

text \<open>
  The operators of the spec's own words in the plane, against which the residuals are
  compared: with the coordinates \<open>x\<close> (first) and \<open>y\<close> (second), the Laplacian
  \<open>\<partial>\<^sup>2f/\<partial>x\<^sup>2 + \<partial>\<^sup>2f/\<partial>y\<^sup>2\<close> of a scalar field and the divergence
  \<open>\<partial>u/\<partial>x + \<partial>v/\<partial>y\<close> of a vector field \<open>(u, v)\<close>.
\<close>

definition laplacian2 :: "column \<Rightarrow> column" where
  "laplacian2 f = (\<lambda>p. partial 0 (partial 0 f) p + partial 1 (partial 1 f) p)"

definition divergence2 :: "column \<Rightarrow> column \<Rightarrow> column" where
  "divergence2 u v = (\<lambda>p. partial 0 u p + partial 1 v p)"

section \<open>Residuals of the Stokes problem\<close>

text \<open>
  A residual function takes the sample coordinates and the network output and returns
  the residual tensor, or fails where a field it extracts is absent.
\<close>

type_synonym residual = "LabelTensor \<Rightarrow> LabelTensor \<Rightarrow> Tensor option"

definition inlet :: residual where
  "inlet input output = do {
     y \<leftarrow> extract_fields input [''y''];
     let value = rmul_scalar 2 (rsub_scalar 1 (pow_scalar (tensor y) 2));
     ux \<leftarrow> extract_fields output [''ux''];
     sub (tensor ux) value
   }"

definition outlet :: residual where
  "outlet input output = do {
     let value = 0;
     p \<leftarrow> extract_fields output [''p''];
     Some (sub_scalar (tensor p) value)
   }"

definition wall :: residual where
  "wall input output = do {
     let value = 0;
     u \<leftarrow> extract_fields output [''ux'', ''uy''];
     Some (sub_scalar (tensor u) value)
   }"

definition momentum :: residual where
  "momentum input output = do {
     ux \<leftarrow> extract_fields output [''ux''];
     lap_ux \<leftarrow> nabla ux input;
     lx \<leftarrow> mk_LabelTensor lap_ux [''x''];
     uy \<leftarrow> extract_fields output [''uy''];
     lap_uy \<leftarrow> nabla uy input;
     ly \<leftarrow> mk_LabelTensor lap_uy [''y''];
     let nabla_v = hstack [tensor lx, tensor ly];
     p \<leftarrow> extract_fields output [''p''];
     g \<leftarrow> grad p input;
     add (neg nabla_v) g
   }"

definition continuity :: residual where
  "continuity input output = do {
     u \<leftarrow> extract_fields output [''ux'', ''uy''];
     div_op u input
   }"

text \<open>The row of a residual at one sample point.\<close>

definition residual_at :: "residual \<Rightarrow> LabelTensor \<Rightarrow> LabelTensor \<Rightarrow> coords \<Rightarrow> real list option" where
  "residual_at f input output p = map_option (\<lambda>t. row t p) (f input output)"

section \<open>The problem record\<close>

text \<open>
  Modelled from the spec: the region descriptor \<^verbatim>\<open>Span\<close> of the framework, which is not
  part of the problem file. It is built from a dictionary that gives each variable
  either a two-element list, the closed range of the variable, or one number, the value
  the variable is fixed to. A point (a value for each variable it names) lies in the
  region when every variable of the descriptor has a value in its range or equal to its
  fixed value.
\<close>

datatype bound = Range real real | Fixed real

type_synonym Span = "(string \<times> bound) list"

fun in_bound :: "bound \<Rightarrow> real \<Rightarrow> bool" where
  "in_bound (Range lo hi) r = (lo \<le> r \<and> r \<le> hi)"
| "in_bound (Fixed c) r = (r = c)"

definition in_span :: "Span \<Rightarrow> (string \<rightharpoonup> real) \<Rightarrow> bool" where
  "in_span sp pt =
     list_all (\<lambda>(v, b). case pt v of None \<Rightarrow> False | Some r \<Rightarrow> in_bound b r) sp"

text \<open>
  Modelled from the spec: \<^verbatim>\<open>Condition\<close>, which pairs a region with one residual
  function or with a list of them.
\<close>

datatype residuals = Single residual | Several "residual list"

record Condition =
  location :: Span
  cond_function :: residuals

text \<open>A dictionary display: the entries are stored from left to right.\<close>

definition dict_of :: "('k \<times> 'v) list \<Rightarrow> ('k \<rightharpoonup> 'v)" where
  "dict_of kvs = fold (\<lambda>(k, v) m. m(k \<mapsto> v)) kvs Map.empty"

record Problem =
  output_variables :: "string list"
  spatial_domain :: Span
  conditions :: "string \<rightharpoonup> Condition"

definition conditions_items :: "(string \<times> Condition) list" where
  "conditions_items =
     [(''gamma_top'', \<lparr>location = [(''x'', Range (-2) 2), (''y'', Fixed 1)],
                       cond_function = Single wall\<rparr>),
      (''gamma_bot'', \<lparr>location = [(''x'', Range (-2) 2), (''y'', Fixed (-1))],
                       cond_function = Single wall\<rparr>),
      (''gamma_out'', \<lparr>location = [(''x'', Fixed 2), (''y'', Range (-1) 1)],
                       cond_function = Single outlet\<rparr>),
      (''gamma_in'', \<lparr>location = [(''x'', Fixed (-2)), (''y'', Range (-1) 1)],
                      cond_function = Single inlet\<rparr>),
      (''D'', \<lparr>location = [(''x'', Range (-2) 2), (''y'', Range (-1) 1)],
               cond_function = Several [momentum, continuity]\<rparr>)]"

definition Stokes :: Problem where
  "Stokes =
     \<lparr>output_variables = [''ux'', ''uy'', ''p''],
      spatial_domain = [(''x'', Range (-2) 2), (''y'', Range (-1) 1)],
      conditions = dict_of conditions_items\<rparr>"

text \<open>
  The sample with coordinates \<open>p\<close>, as a point: the value of each label of the
  coordinate tensor. The region of a condition, as a predicate on it.
\<close>

definition sample_point :: "LabelTensor \<Rightarrow> coords \<Rightarrow> (string \<rightharpoonup> real)" where
  "sample_point input p = map_of (zip (labels input) p)"

definition in_region :: "string \<Rightarrow> (string \<rightharpoonup> real) \<Rightarrow> bool" where
  "in_region name pt =
     (case conditions Stokes name of
        None \<Rightarrow> False
      | Some c \<Rightarrow> in_span (location c) pt)"

text \<open>
  The network of the example scenario, on the coordinates \<open>x\<close> (first) and \<open>y\<close>
  (second): \<open>ux = 2 (1 - y\<^sup>2)\<close>, \<open>uy = 0\<close>, \<open>p = 0\<close> at every point.
\<close>

definition xy :: LabelTensor where
  "xy = coordinates [''x'', ''y'']"

definition parabolic_ux :: column where
  "parabolic_ux = (\<lambda>p. 2 * (1 - (p ! 1) ^ 2))"

definition zero_column :: column where
  "zero_column = (\<lambda>p. 0)"

definition parabolic_output :: LabelTensor where
  "parabolic_output =
     \<lparr>labels = [''ux'', ''uy'', ''p''],
      tensor = [parabolic_ux, zero_column, zero_column]\<rparr>"

text \<open>A network with the constant velocity \<open>(1, 0)\<close> and the pressure \<open>0\<close>.\<close>

definition one_column :: column where
  "one_column = (\<lambda>p. 1)"

definition unit_output :: LabelTensor where
  "unit_output =
     \<lparr>labels = [''ux'', ''uy'', ''p''],
      tensor = [one_column, zero_column, zero_column]\<rparr>"

section \<open>The inlet residual in binary32 arithmetic\<close>

text \<open>
  The tensors of the problem hold IEEE binary32 numbers, and every arithmetic operation
  on them rounds its exact result to the nearest binary32 number, ties to the even
  significand; a rounded result beyond the largest number is an infinity. The
  subtraction of \<open>0.0\<close> in \<open>wall\<close> and \<open>outlet\<close> is exact in that arithmetic. The four
  operations of \<open>inlet\<close> are not: \<open>inlet\<close> above is the residual in exact arithmetic,
  and \<open>inlet32\<close> below is the same body with the rounding of each operation. The two
  zeros of binary32 are not told apart (they are equal as numbers).
\<close>

datatype f32 = Num real | PInf | MInf | NaN

definition round_even :: "real \<Rightarrow> int" where
  "round_even q =
     (let f = \<lfloor>q\<rfloor>; d = q - of_int f in
      if d < 1 / 2 then f
      else if 1 / 2 < d then f + 1
      else if even f then f else f + 1)"

definition round32 :: "real \<Rightarrow> real" where
  "round32 x =
     (if x = 0 then 0
      else let e = max (- 126) \<lfloor>log 2 \<bar>x\<bar>\<rfloor>;
               u = 2 powr (of_int e - 23)
           in of_int (round_even (x / u)) * u)"

definition max32 :: real where
  "max32 = (2 - 1 / 2 ^ 23) * 2 ^ 127"

definition finish32 :: "real \<Rightarrow> f32" where
  "finish32 x =
     (let r = round32 x in
      if max32 < r then PInf else if r < - max32 then MInf else Num r)"

fun fsub :: "f32 \<Rightarrow> f32 \<Rightarrow> f32" where
  "fsub (Num a) (Num b) = finish32 (a - b)"
| "fsub NaN _ = NaN"
| "fsub _ NaN = NaN"
| "fsub PInf PInf = NaN"
| "fsub MInf MInf = NaN"
| "fsub PInf _ = PInf"
| "fsub MInf _ = MInf"
| "fsub (Num a) PInf = MInf"
| "fsub (Num a) MInf = PInf"

fun fmul :: "f32 \<Rightarrow> f32 \<Rightarrow> f32" where
  "fmul (Num a) (Num b) = finish32 (a * b)"
| "fmul NaN _ = NaN"
| "fmul _ NaN = NaN"
| "fmul (Num a) PInf = (if a = 0 then NaN else if 0 < a then PInf else MInf)"
| "fmul (Num a) MInf = (if a = 0 then NaN else if 0 < a then MInf else PInf)"
| "fmul PInf (Num b) = (if b = 0 then NaN else if 0 < b then PInf else MInf)"
| "fmul MInf (Num b) = (if b = 0 then NaN else if 0 < b then MInf else PInf)"
| "fmul PInf PInf = PInf"
| "fmul PInf MInf = MInf"
| "fmul MInf PInf = MInf"
| "fmul MInf MInf = PInf"

text \<open>The least positive binary32 number; the numbers that rounding leaves as they are.\<close>

definition tiny32 :: real where
  "tiny32 = 2 powr (- 149)"

definition is_float32 :: "real \<Rightarrow> bool" where
  "is_float32 x \<longleftrightarrow> round32 x = x \<and> \<bar>x\<bar> \<le> max32"

text \<open>The value of \<^verbatim>\<open>2 * (1 - y**2)\<close> in binary32 arithmetic.\<close>

definition value32 :: "real \<Rightarrow> f32" where
  "value32 y = fmul (Num 2) (fsub (Num 1) (fmul (Num y) (Num y)))"

text \<open>
  Tensors of binary32 entries and the operations of \<^verbatim>\<open>inlet\<close> on them: the
  conversion of the entries, the square \<^verbatim>\<open>t ** 2\<close> (the rounded product of each entry
  with itself), \<^verbatim>\<open>1 - t\<close>, \<^verbatim>\<open>2 * t\<close> and the difference of two tensors.
\<close>

type_synonym Tensor32 = "(coords \<Rightarrow> f32) list"

definition to32 :: "Tensor \<Rightarrow> Tensor32" where
  "to32 t = map (\<lambda>f p. Num (f p)) t"

definition square32 :: "Tensor32 \<Rightarrow> Tensor32" where
  "square32 t = map (\<lambda>f p. fmul (f p) (f p)) t"

definition rsub32 :: "real \<Rightarrow> Tensor32 \<Rightarrow> Tensor32" where
  "rsub32 v t = map (\<lambda>f p. fsub (Num v) (f p)) t"

definition rmul32 :: "real \<Rightarrow> Tensor32 \<Rightarrow> Tensor32" where
  "rmul32 v t = map (\<lambda>f p. fmul (Num v) (f p)) t"

definition sub32 :: "Tensor32 \<Rightarrow> Tensor32 \<Rightarrow> Tensor32 option" where
  "sub32 a b = broadcast fsub a b"

definition inlet32 :: "LabelTensor \<Rightarrow> LabelTensor \<Rightarrow> Tensor32 option" where
  "inlet32 input output = do {
     y \<leftarrow> extract_fields input [''y''];
     let value = rmul32 2 (rsub32 1 (square32 (to32 (tensor y))));
     ux \<leftarrow> extract_fields output [''ux''];
     sub32 (to32 (tensor ux)) value
   }"

definition inlet32_at :: "LabelTensor \<Rightarrow> LabelTensor \<Rightarrow> coords \<Rightarrow> f32 list option" where
  "inlet32_at input output p = map_option (map (\<lambda>f. f p)) (inlet32 input output)"

text \<open>
  A network with the constant horizontal velocity \<open>6143 / 4096\<close>, and one with the
  constant horizontal velocity \<open>16777215 / 2 ^ 45\<close>.
\<close>

definition probe_ux :: column where
  "probe_ux = (\<lambda>p. 6143 / 4096)"

definition probe_output :: LabelTensor where
  "probe_output =
     \<lparr>labels = [''ux'', ''uy'', ''p''],
      tensor = [probe_ux, zero_column, zero_column]\<rparr>"

definition small_ux :: column where
  "small_ux = (\<lambda>p. 16777215 / 2 ^ 45)"

definition small_output :: LabelTensor where
  "small_output =
     \<lparr>labels = [''ux'', ''uy'', ''p''],
      tensor = [small_ux, zero_column, zero_column]\<rparr>"

section \<open>Properties\<close>

subsection \<open>Values of the boundary residuals\<close>

lemma extract_one:
  "column_of t l = Some f \<Longrightarrow> extract_fields t [l] = Some \<lparr>labels = [l], tensor = [f]\<rparr>"
  by (simp add: extract_fields_def)

lemma extract_two:
  "column_of t l = Some f \<Longrightarrow> column_of t m = Some g \<Longrightarrow>
   extract_fields t [l, m] = Some \<lparr>labels = [l, m], tensor = [f, g]\<rparr>"
  by (simp add: extract_fields_def)


lemma outlet_value:
  assumes "column_of output ''p'' = Some pr"
  shows "outlet input output = Some [\<lambda>p. pr p - 0]"
  using assms by (simp add: outlet_def extract_one sub_scalar_def)

lemma wall_value:
  assumes "column_of output ''ux'' = Some ux" and "column_of output ''uy'' = Some uy"
  shows "wall input output = Some [\<lambda>p. ux p - 0, \<lambda>p. uy p - 0]"
  using assms by (simp add: wall_def extract_two sub_scalar_def)

subsection \<open>Derivatives and the operators in the plane\<close>

lemma derivative_eq: "(f has_real_derivative D) (at x) \<Longrightarrow> derivative f x = D"
  unfolding derivative_def by (rule the_equality) (auto intro: DERIV_unique)

lemma derivative_const: "derivative (\<lambda>t. c) x = 0"
  by (rule derivative_eq) (rule DERIV_const)



lemma upt_two: "[0..<2] = [0, 1]"
  by (simp add: numeral_2_eq_2)

lemma nabla_scalar:
  "length (labels input) = 2 \<Longrightarrow>
   nabla \<lparr>labels = ls, tensor = [f]\<rparr> input = Some [laplacian2 f]"
  by (simp add: nabla_def laplacian2_def upt_two)

lemma grad_scalar:
  "length (labels input) = 2 \<Longrightarrow>
   grad \<lparr>labels = ls, tensor = [f]\<rparr> input = Some [partial 0 f, partial 1 f]"
  by (simp add: grad_def upt_two)

lemma div_vector:
  "length (labels input) = 2 \<Longrightarrow>
   div_op \<lparr>labels = ls, tensor = [u, v]\<rparr> input = Some [divergence2 u v]"
  by (simp add: div_op_def divergence2_def upt_two)

lemma momentum_value:
  assumes "column_of output ''ux'' = Some ux" and "column_of output ''uy'' = Some uy"
    and "column_of output ''p'' = Some pr" and "length (labels input) = 2"
  shows "momentum input output =
    Some [\<lambda>q. - laplacian2 ux q + partial 0 pr q, \<lambda>q. - laplacian2 uy q + partial 1 pr q]"
  using assms
  by (simp add: momentum_def extract_one nabla_scalar grad_scalar mk_LabelTensor_def
      hstack_def neg_def add_def broadcast_def)

lemma continuity_value:
  assumes "column_of output ''ux'' = Some ux" and "column_of output ''uy'' = Some uy"
    and "length (labels input) = 2"
  shows "continuity input output = Some [divergence2 ux uy]"
  using assms by (simp add: continuity_def extract_two div_vector)

lemma parabolic_columns:
  "column_of parabolic_output ''ux'' = Some parabolic_ux"
  "column_of parabolic_output ''uy'' = Some zero_column"
  "column_of parabolic_output ''p'' = Some zero_column"
  by (simp_all add: column_of_def parabolic_output_def)

lemma xy_labels: "labels xy = [''x'', ''y'']"
  by (simp add: xy_def coordinates_def)

lemma xy_y: "column_of xy ''y'' = Some (\<lambda>p. p ! 1)"
  by (simp add: column_of_def xy_def coordinates_def upt_two)

lemma partial_zero: "partial j zero_column = zero_column"
  unfolding partial_def zero_column_def by (simp add: derivative_const)

lemma partial0_parabolic: "partial 0 parabolic_ux = zero_column"
  unfolding partial_def parabolic_ux_def zero_column_def by (simp add: derivative_const)





subsection \<open>The conditions dictionary and the regions\<close>

lemma dict_lookups:
  "conditions Stokes ''gamma_top'' =
     Some \<lparr>location = [(''x'', Range (-2) 2), (''y'', Fixed 1)], cond_function = Single wall\<rparr>"
  "conditions Stokes ''gamma_bot'' =
     Some \<lparr>location = [(''x'', Range (-2) 2), (''y'', Fixed (-1))], cond_function = Single wall\<rparr>"
  "conditions Stokes ''gamma_out'' =
     Some \<lparr>location = [(''x'', Fixed 2), (''y'', Range (-1) 1)], cond_function = Single outlet\<rparr>"
  "conditions Stokes ''gamma_in'' =
     Some \<lparr>location = [(''x'', Fixed (-2)), (''y'', Range (-1) 1)], cond_function = Single inlet\<rparr>"
  "conditions Stokes ''D'' =
     Some \<lparr>location = [(''x'', Range (-2) 2), (''y'', Range (-1) 1)],
           cond_function = Several [momentum, continuity]\<rparr>"
  by (simp_all add: Stokes_def dict_of_def conditions_items_def)

lemma conditions_dom:
  "dom (conditions Stokes) = {''gamma_top'', ''gamma_bot'', ''gamma_out'', ''gamma_in'', ''D''}"
  by (auto simp add: Stokes_def dict_of_def conditions_items_def split: if_splits)

lemma in_span_xy:
  "in_span [(''x'', bx), (''y'', by)] pt \<longleftrightarrow>
   (\<exists>x y. pt ''x'' = Some x \<and> pt ''y'' = Some y \<and> in_bound bx x \<and> in_bound by y)"
  by (auto simp add: in_span_def split: option.splits)

lemma conditions_cases:
  assumes "conditions Stokes name = Some c"
  shows "name \<in> {''gamma_top'', ''gamma_bot'', ''gamma_out'', ''gamma_in'', ''D''}"
  using assms conditions_dom by blast

subsection \<open>The residuals of the example networks\<close>

lemma unit_columns:
  "column_of unit_output ''ux'' = Some one_column"
  "column_of unit_output ''uy'' = Some zero_column"
  "column_of unit_output ''p'' = Some zero_column"
  by (simp_all add: column_of_def unit_output_def)

lemma sample_point_xy:
  "sample_point xy (a # b # r) = [''x'' \<mapsto> a, ''y'' \<mapsto> b]"
  by (auto simp add: sample_point_def xy_labels fun_eq_iff)


lemma in_region_simps:
  "in_region ''gamma_top'' pt \<longleftrightarrow>
     (\<exists>x y. pt ''x'' = Some x \<and> pt ''y'' = Some y \<and> - 2 \<le> x \<and> x \<le> 2 \<and> y = 1)"
  "in_region ''gamma_bot'' pt \<longleftrightarrow>
     (\<exists>x y. pt ''x'' = Some x \<and> pt ''y'' = Some y \<and> - 2 \<le> x \<and> x \<le> 2 \<and> y = - 1)"
  "in_region ''gamma_out'' pt \<longleftrightarrow>
     (\<exists>x y. pt ''x'' = Some x \<and> pt ''y'' = Some y \<and> x = 2 \<and> - 1 \<le> y \<and> y \<le> 1)"
  "in_region ''gamma_in'' pt \<longleftrightarrow>
     (\<exists>x y. pt ''x'' = Some x \<and> pt ''y'' = Some y \<and> x = - 2 \<and> - 1 \<le> y \<and> y \<le> 1)"
  "in_region ''D'' pt \<longleftrightarrow>
     (\<exists>x y. pt ''x'' = Some x \<and> pt ''y'' = Some y \<and> - 2 \<le> x \<and> x \<le> 2 \<and> - 1 \<le> y \<and> y \<le> 1)"
  by (simp_all add: in_region_def dict_lookups in_span_xy)




lemma xy_two: "length (labels xy) = 2"
  by (simp add: xy_labels)

lemma zero_column_at: "zero_column p = 0"
  by (simp add: zero_column_def)

lemma partial_zero_at: "partial j zero_column p = 0"
  by (simp only: partial_zero zero_column_at)

lemma parabolic_continuity: "residual_at continuity xy parabolic_output p = Some [0]"
proof -
  have "divergence2 parabolic_ux zero_column p = 0"
    by (simp add: divergence2_def partial0_parabolic partial_zero_at zero_column_at)
  then show ?thesis
    by (simp add: residual_at_def row_def continuity_value [OF parabolic_columns(1,2) xy_two])
qed


subsection \<open>Rounding to binary32\<close>

lemma round_even_cases: "round_even q = \<lfloor>q\<rfloor> \<or> round_even q = \<lfloor>q\<rfloor> + 1"
  by (simp add: round_even_def Let_def)

lemma round_even_nonzero:
  assumes "1 \<le> \<bar>q\<bar>"
  shows "round_even q \<noteq> 0"
proof (cases "0 \<le> q")
  case True
  with assms have "1 \<le> \<lfloor>q\<rfloor>" by linarith
  with round_even_cases [of q] show ?thesis by linarith
next
  case False
  with assms have q: "q \<le> - 1" by linarith
  then have f: "\<lfloor>q\<rfloor> \<le> - 1" by linarith
  show ?thesis
  proof (cases "\<lfloor>q\<rfloor> = - 1")
    case True
    then have "- 1 \<le> q" by linarith
    with q have "q - of_int \<lfloor>q\<rfloor> = 0" using True by simp
    then have "round_even q = \<lfloor>q\<rfloor>" by (simp add: round_even_def Let_def)
    with True show ?thesis by simp
  next
    case False
    with f have "\<lfloor>q\<rfloor> \<le> - 2" by linarith
    with round_even_cases [of q] show ?thesis by linarith
  qed
qed

lemma round32_zero: "round32 0 = 0"
  by (simp add: round32_def)

lemma tiny32_pos: "0 < tiny32"
  by (simp add: tiny32_def)

lemma ulp_over_tiny32:
  assumes "- 126 \<le> e"
  shows "2 powr (of_int e - 23) / tiny32 = 2 ^ nat (e + 126)"
proof -
  have "of_int e - 23 - (- 149) = real (nat (e + 126))"
    using assms by simp
  then have "(2::real) powr (of_int e - 23) / 2 powr (- 149) = 2 powr real (nat (e + 126))"
    by (simp only: powr_diff [symmetric])
  then show ?thesis
    by (simp only: tiny32_def powr_realpow [of 2] zero_less_numeral)
qed

text \<open>Every rounded value is an integer multiple of the least positive number.\<close>

lemma round32_grid: "round32 x / tiny32 \<in> \<int>"
proof (cases "x = 0")
  case True
  then show ?thesis by (simp add: round32_def)
next
  case False
  define e where "e = max (- 126) \<lfloor>log 2 \<bar>x\<bar>\<rfloor>"
  define n where "n = round_even (x / 2 powr (of_int e - 23))"
  have e: "- 126 \<le> e" by (simp add: e_def)
  have "round32 x = of_int n * 2 powr (of_int e - 23)"
    using False by (simp add: round32_def e_def n_def Let_def)
  then have "round32 x / tiny32 = of_int n * (2 powr (of_int e - 23) / tiny32)"
    by simp
  also have "\<dots> = of_int (n * 2 ^ nat (e + 126))"
    by (simp only: ulp_over_tiny32 [OF e]) simp
  finally show ?thesis
    by (simp only: Ints_of_int)
qed

lemma round32_nonzero:
  assumes "x / tiny32 \<in> \<int>" and "x \<noteq> 0"
  shows "round32 x \<noteq> 0"
proof -
  define e where "e = max (- 126) \<lfloor>log 2 \<bar>x\<bar>\<rfloor>"
  define u where "u = (2::real) powr (of_int e - 23)"
  have upos: "0 < u" by (simp add: u_def)
  from assms(1) obtain k :: int where k: "x / tiny32 = of_int k"
    by (auto elim: Ints_cases)
  with assms(2) tiny32_pos have "k \<noteq> 0" by auto
  then have "1 \<le> \<bar>k\<bar>" by linarith
  then have "(1::real) \<le> of_int \<bar>k\<bar>" by (simp only: of_int_1_le_iff)
  then have "1 \<le> \<bar>x / tiny32\<bar>" by (simp only: k of_int_abs)
  then have small: "tiny32 \<le> \<bar>x\<bar>"
    using tiny32_pos by (simp add: field_simps)
  have "u \<le> \<bar>x\<bar>"
  proof (cases "- 126 \<le> \<lfloor>log 2 \<bar>x\<bar>\<rfloor>")
    case True
    then have "e = \<lfloor>log 2 \<bar>x\<bar>\<rfloor>" by (simp add: e_def)
    then have "of_int e \<le> log 2 \<bar>x\<bar>" by simp
    then have "of_int e - 23 \<le> log 2 \<bar>x\<bar>" by simp
    then have "u \<le> 2 powr (log 2 \<bar>x\<bar>)"
      unfolding u_def by simp
    then show ?thesis using assms(2) by simp
  next
    case False
    then have "e = - 126" by (simp add: e_def)
    then have "u = tiny32" by (simp add: u_def tiny32_def)
    with small show ?thesis by simp
  qed
  then have "1 \<le> \<bar>x / u\<bar>"
    using upos by (simp add: field_simps)
  then have "round_even (x / u) \<noteq> 0"
    by (rule round_even_nonzero)
  then show ?thesis
    using assms(2) upos by (simp add: round32_def e_def [symmetric] u_def [symmetric] Let_def)
qed

lemma round32_binade:
  assumes "- 126 \<le> e" and "2 powr of_int e \<le> \<bar>x\<bar>" and "\<bar>x\<bar> < 2 powr (of_int e + 1)"
  shows "round32 x = of_int (round_even (x / 2 powr (of_int e - 23))) * 2 powr (of_int e - 23)"
proof -
  have "0 < (2::real) powr of_int e" by simp
  with assms(2) have pos: "0 < \<bar>x\<bar>" by linarith
  then have "\<lfloor>log 2 \<bar>x\<bar>\<rfloor> = e"
    using assms(2,3) by (simp add: floor_log_eq_powr_iff)
  with assms(1) pos show ?thesis
    by (simp add: round32_def Let_def)
qed

lemma round32_below_two:
  assumes "n \<le> 126" and "1 / 2 ^ n \<le> \<bar>x\<bar>" and "\<bar>x\<bar> < 2 / 2 ^ n"
  shows "round32 x = of_int (round_even (x * 2 ^ (n + 23))) / 2 ^ (n + 23)"
proof -
  have a: "(2::real) powr of_int (- int n) = 1 / 2 ^ n"
    by (simp add: powr_minus powr_realpow field_simps)
  have b: "(2::real) powr (of_int (- int n) + 1) = 2 / 2 ^ n"
    by (simp add: powr_diff powr_realpow)
  have "of_int (- int n) - 23 = - real (n + 23)" by simp
  then have c: "(2::real) powr (of_int (- int n) - 23) = 1 / 2 ^ (n + 23)"
    by (simp only: powr_minus powr_realpow [of 2] zero_less_numeral inverse_eq_divide)
  have lo: "- 126 \<le> - int n"
    using assms(1) by simp
  have le: "2 powr of_int (- int n) \<le> \<bar>x\<bar>"
    using assms(2) by (simp only: a)
  have less: "\<bar>x\<bar> < 2 powr (of_int (- int n) + 1)"
    using assms(3) by (simp only: b)
  have "round32 x = of_int (round_even (x / 2 powr (of_int (- int n) - 23))) *
      2 powr (of_int (- int n) - 23)"
    by (rule round32_binade [OF lo le less])
  then show ?thesis
    by (simp only: c) simp
qed

lemma max32_pos: "0 < max32"
  by (simp add: max32_def)

lemma finish32_exact: "round32 x = r \<Longrightarrow> \<bar>r\<bar> \<le> max32 \<Longrightarrow> finish32 x = Num r"
  by (auto simp add: finish32_def Let_def)

lemma finish32_zero_iff: "finish32 x = Num 0 \<longleftrightarrow> round32 x = 0"
  using max32_pos by (auto simp add: finish32_def Let_def)

lemma finish32_grid: "finish32 x = Num r \<Longrightarrow> r / tiny32 \<in> \<int>"
  using round32_grid [of x] by (auto simp add: finish32_def Let_def split: if_splits)

lemma is_float32_grid: "is_float32 x \<Longrightarrow> x / tiny32 \<in> \<int>"
  using round32_grid [of x] by (simp add: is_float32_def)

lemma fsub_zero_iff:
  assumes "a / tiny32 \<in> \<int>" and "b / tiny32 \<in> \<int>"
  shows "fsub (Num a) (Num b) = Num 0 \<longleftrightarrow> a = b"
proof
  assume "fsub (Num a) (Num b) = Num 0"
  then have z: "round32 (a - b) = 0" by (simp add: finish32_zero_iff)
  have "(a - b) / tiny32 \<in> \<int>"
    using assms by (simp only: diff_divide_distrib Ints_diff)
  with z round32_nonzero [of "a - b"] show "a = b" by auto
next
  assume "a = b"
  then show "fsub (Num a) (Num b) = Num 0"
    by (simp add: finish32_zero_iff round32_zero)
qed

lemma fmul_grid: "fmul (Num a) w = Num r \<Longrightarrow> r / tiny32 \<in> \<int>"
  by (cases w) (auto dest: finish32_grid split: if_splits)

lemma value32_grid: "value32 y = Num b \<Longrightarrow> b / tiny32 \<in> \<int>"
  unfolding value32_def by (rule fmul_grid)

lemma fsub_value32_zero_iff:
  assumes "is_float32 a"
  shows "fsub (Num a) (value32 y) = Num 0 \<longleftrightarrow> value32 y = Num a"
proof (cases "value32 y")
  case (Num b)
  then show ?thesis
    using fsub_zero_iff [OF is_float32_grid [OF assms] value32_grid [OF Num]] by auto
qed simp_all

lemma inlet32_value:
  assumes "column_of input ''y'' = Some y" and "column_of output ''ux'' = Some ux"
  shows "inlet32 input output = Some [\<lambda>p. fsub (Num (ux p)) (value32 (y p))]"
  using assms
  by (simp add: inlet32_def extract_one sub32_def broadcast_def rmul32_def rsub32_def
      square32_def to32_def value32_def)

lemma probe_columns:
  "column_of probe_output ''ux'' = Some probe_ux"
  "column_of small_output ''ux'' = Some small_ux"
  by (simp_all add: column_of_def probe_output_def small_output_def)

subsection \<open>The inlet residual at two points\<close>

lemma gamma_in_point:
  assumes "- 1 \<le> y" and "y \<le> 1"
  shows "in_region ''gamma_in'' (sample_point xy [- 2, y])"
  using assms by (simp add: in_region_simps sample_point_xy)

lemma max32_large: "2 \<le> max32"
  by (simp add: max32_def)

lemma round32_square: "round32 (16785409 / 67108864) = 2049 / 8192"
  by (subst round32_below_two [where n = 2]) (simp_all add: round_even_def Let_def)

lemma round32_rest: "round32 (6143 / 8192) = 6143 / 8192"
  by (subst round32_below_two [where n = 1]) (simp_all add: round_even_def Let_def)

lemma round32_probe: "round32 (6143 / 4096) = 6143 / 4096"
  by (subst round32_below_two [where n = 0]) (simp_all add: round_even_def Let_def)

lemma value32_probe: "value32 (4097 / 8192) = Num (6143 / 4096)"
proof -
  have a: "fmul (Num (4097 / 8192)) (Num (4097 / 8192)) = Num (2049 / 8192)"
    using max32_large by (simp add: finish32_exact [OF round32_square])
  have b: "fsub (Num 1) (Num (2049 / 8192)) = Num (6143 / 8192)"
    using max32_large by (simp add: finish32_exact [OF round32_rest])
  have c: "fmul (Num 2) (Num (6143 / 8192)) = Num (6143 / 4096)"
    using max32_large by (simp add: finish32_exact [OF round32_probe])
  show ?thesis
    by (simp only: value32_def a b c)
qed

lemma is_float32_probe: "is_float32 (6143 / 4096)"
  using max32_large by (simp add: is_float32_def round32_probe)

lemma round32_square2: "round32 (70368727400449 / 70368744177664) = 4194303 / 4194304"
  by (subst round32_below_two [where n = 1]) (simp_all add: round_even_def Let_def)

lemma round32_rest2: "round32 (1 / 4194304) = 1 / 4194304"
  by (subst round32_below_two [where n = 22]) (simp_all add: round_even_def Let_def)

lemma round32_value2: "round32 (1 / 2097152) = 1 / 2097152"
  by (subst round32_below_two [where n = 21]) (simp_all add: round_even_def Let_def)

lemma round32_small: "round32 (16777215 / 35184372088832) = 16777215 / 35184372088832"
  by (subst round32_below_two [where n = 22]) (simp_all add: round_even_def Let_def)

lemma round32_diff2: "round32 (- (1 / 35184372088832)) = - (1 / 35184372088832)"
  by (subst round32_below_two [where n = 45]) (simp_all add: round_even_def Let_def)

lemma value32_small: "value32 (8388607 / 8388608) = Num (1 / 2097152)"
proof -
  have a: "fmul (Num (8388607 / 8388608)) (Num (8388607 / 8388608)) = Num (4194303 / 4194304)"
    using max32_large by (simp add: finish32_exact [OF round32_square2])
  have b: "fsub (Num 1) (Num (4194303 / 4194304)) = Num (1 / 4194304)"
    using max32_large by (simp add: finish32_exact [OF round32_rest2])
  have c: "fmul (Num 2) (Num (1 / 4194304)) = Num (1 / 2097152)"
    using max32_large by (simp add: finish32_exact [OF round32_value2])
  show ?thesis
    by (simp only: value32_def a b c)
qed

lemma fsub_small: "fsub (Num (16777215 / 2 ^ 45)) (Num (1 / 2097152)) = Num (- (1 / 2 ^ 45))"
  using max32_large by (simp add: finish32_exact [OF round32_diff2])

lemma is_float32_small: "is_float32 (16777215 / 2 ^ 45)"
  using max32_large round32_small by (simp add: is_float32_def)

lemma round32_y: "round32 (4097 / 8192) = 4097 / 8192"
  by (subst round32_below_two [where n = 1]) (simp_all add: round_even_def Let_def)

lemma round32_y_small: "round32 (8388607 / 8388608) = 8388607 / 8388608"
  by (subst round32_below_two [where n = 1]) (simp_all add: round_even_def Let_def)

lemma exact_small: "(16777215 / 2 ^ 45 :: real) = 2 * (1 - (8388607 / 8388608) ^ 2)"
  by (simp add: power2_eq_square)

section \<open>The residuals, the regions and the conditions of the problem\<close>

lemma domain_span:
  "in_span (spatial_domain Stokes) pt \<longleftrightarrow>
     (\<exists>x y. pt ''x'' = Some x \<and> pt ''y'' = Some y \<and> - 2 \<le> x \<and> x \<le> 2 \<and> - 1 \<le> y \<and> y \<le> 1)"
  by (simp add: Stokes_def in_span_xy)

text \<open>
  C1. For every coordinate tensor of two columns (as the samples of the spatial domain,
  with the coordinates \<open>x\<close> and \<open>y\<close>, are) and every network output that provides the
  fields \<open>ux\<close>, \<open>uy\<close> and \<open>p\<close>, \<open>momentum\<close> returns the vector
  \<open>- laplacian (velocity) + gradient (pressure)\<close>: the Laplacian of \<open>ux\<close>, labelled
  \<open>x\<close>, and the Laplacian of \<open>uy\<close>, labelled \<open>y\<close>, stacked into a vector of two
  columns and negated, plus the gradient of \<open>p\<close> with respect to the two coordinates.
\<close>

theorem momentum_residual:
  assumes "column_of output ''ux'' = Some ux" and "column_of output ''uy'' = Some uy"
    and "column_of output ''p'' = Some pr" and "length (labels input) = 2"
  shows "nabla \<lparr>labels = [''ux''], tensor = [ux]\<rparr> input = Some [laplacian2 ux] \<and>
         mk_LabelTensor [laplacian2 ux] [''x''] =
           Some \<lparr>labels = [''x''], tensor = [laplacian2 ux]\<rparr> \<and>
         nabla \<lparr>labels = [''uy''], tensor = [uy]\<rparr> input = Some [laplacian2 uy] \<and>
         mk_LabelTensor [laplacian2 uy] [''y''] =
           Some \<lparr>labels = [''y''], tensor = [laplacian2 uy]\<rparr> \<and>
         grad \<lparr>labels = [''p''], tensor = [pr]\<rparr> input = Some [partial 0 pr, partial 1 pr] \<and>
         momentum input output =
           Some [\<lambda>q. - laplacian2 ux q + partial 0 pr q,
                 \<lambda>q. - laplacian2 uy q + partial 1 pr q]"
  using assms
  by (simp add: momentum_value nabla_scalar grad_scalar mk_LabelTensor_def)

theorem momentum_residual_witness:
  "column_of parabolic_output ''ux'' = Some parabolic_ux \<and>
   column_of parabolic_output ''uy'' = Some zero_column \<and>
   column_of parabolic_output ''p'' = Some zero_column \<and>
   length (labels xy) = 2 \<and>
   momentum xy parabolic_output =
     Some [\<lambda>q. - laplacian2 parabolic_ux q + partial 0 zero_column q,
           \<lambda>q. - laplacian2 zero_column q + partial 1 zero_column q]"
  using momentum_residual [OF parabolic_columns xy_two] parabolic_columns xy_two
  by (intro conjI) simp_all




text \<open>
  The wall residual is not the negation of the velocity: for the network with the
  constant velocity \<open>(1, 0)\<close>, at the point \<open>(0, 1)\<close> of the top wall, it is not
  \<open>(-1, 0)\<close>.
\<close>

theorem wall_negation_counterexample:
  "in_region ''gamma_top'' (sample_point xy [0, 1]) \<and>
   column_of unit_output ''ux'' = Some one_column \<and>
   column_of unit_output ''uy'' = Some zero_column \<and>
   residual_at wall xy unit_output [0, 1] \<noteq> Some [- one_column [0, 1], - zero_column [0, 1]]"
  by (simp add: in_region_simps sample_point_xy unit_columns residual_at_def row_def
      wall_value [OF unit_columns(1,2)] one_column_def zero_column_def)

text \<open>
  C3, amended. For every point (of the top or bottom wall, as of any other region) and
  every network output that provides \<open>ux\<close> and \<open>uy\<close>, the wall residual is the
  velocity output itself, \<open>(ux, uy) - 0\<close>; it is zero exactly when the velocity output
  is zero.
\<close>

theorem wall_residual:
  assumes "column_of output ''ux'' = Some ux" and "column_of output ''uy'' = Some uy"
  shows "residual_at wall input output p = Some [ux p, uy p] \<and>
         (residual_at wall input output p = Some [0, 0] \<longleftrightarrow> ux p = 0 \<and> uy p = 0)"
  by (simp add: residual_at_def row_def wall_value [OF assms])

theorem wall_residual_witness:
  "column_of unit_output ''ux'' = Some one_column \<and>
   column_of unit_output ''uy'' = Some zero_column \<and>
   in_region ''gamma_top'' (sample_point xy [0, 1]) \<and>
   residual_at wall xy unit_output [0, 1] = Some [1, 0]"
  using wall_residual [OF unit_columns(1,2), of xy "[0, 1]"] unit_columns(1,2)
  by (simp add: in_region_simps sample_point_xy one_column_def zero_column_def)

text \<open>
  In the arithmetic of the tensors the inlet residual is neither the exact difference
  \<open>ux - 2 (1 - y\<^sup>2)\<close> nor zero exactly when \<open>ux = 2 (1 - y\<^sup>2)\<close>. At the inlet point
  \<open>y = 4097 / 8192\<close> the residual of \<open>ux = 6143 / 4096\<close> is zero although
  \<open>2 (1 - y\<^sup>2)\<close> is another number; at the inlet point \<open>y = 8388607 / 8388608\<close> the
  residual of \<open>ux = 16777215 / 2 ^ 45\<close>, which is \<open>2 (1 - y\<^sup>2)\<close>, is not zero.
\<close>

theorem inlet_exact_counterexample:
  "in_region ''gamma_in'' (sample_point xy [- 2, 4097 / 8192]) \<and>
   is_float32 (4097 / 8192) \<and>
   column_of probe_output ''ux'' = Some probe_ux \<and>
   is_float32 (probe_ux [- 2, 4097 / 8192]) \<and>
   inlet32_at xy probe_output [- 2, 4097 / 8192] = Some [Num 0] \<and>
   probe_ux [- 2, 4097 / 8192] \<noteq> 2 * (1 - (4097 / 8192) ^ 2) \<and>
   in_region ''gamma_in'' (sample_point xy [- 2, 8388607 / 8388608]) \<and>
   is_float32 (8388607 / 8388608) \<and>
   column_of small_output ''ux'' = Some small_ux \<and>
   is_float32 (small_ux [- 2, 8388607 / 8388608]) \<and>
   small_ux [- 2, 8388607 / 8388608] = 2 * (1 - (8388607 / 8388608) ^ 2) \<and>
   inlet32_at xy small_output [- 2, 8388607 / 8388608] = Some [Num (- (1 / 2 ^ 45))] \<and>
   inlet32_at xy small_output [- 2, 8388607 / 8388608] \<noteq> Some [Num 0]"
proof -
  have "in_region ''gamma_in'' (sample_point xy [- 2, 4097 / 8192])"
    and "in_region ''gamma_in'' (sample_point xy [- 2, 8388607 / 8388608])"
    by (rule gamma_in_point; simp)+
  moreover have "is_float32 (4097 / 8192)" and "is_float32 (8388607 / 8388608)"
    using max32_large by (simp_all add: is_float32_def round32_y round32_y_small)
  moreover have "is_float32 (probe_ux [- 2, 4097 / 8192])"
    and "is_float32 (small_ux [- 2, 8388607 / 8388608])"
    using is_float32_probe is_float32_small by (simp_all add: probe_ux_def small_ux_def)
  moreover have "inlet32_at xy probe_output [- 2, 4097 / 8192] = Some [Num 0]"
    by (simp add: inlet32_at_def inlet32_value [OF xy_y probe_columns(1)] probe_ux_def
        value32_probe finish32_zero_iff round32_zero)
  moreover have "probe_ux [- 2, 4097 / 8192] \<noteq> 2 * (1 - (4097 / 8192) ^ 2)"
    by (simp add: probe_ux_def power2_eq_square)
  moreover have "small_ux [- 2, 8388607 / 8388608] = 2 * (1 - (8388607 / 8388608) ^ 2)"
    by (simp add: small_ux_def power2_eq_square)
  moreover have "inlet32_at xy small_output [- 2, 8388607 / 8388608] =
      Some [Num (- (1 / 2 ^ 45))]"
    by (simp only: inlet32_at_def inlet32_value [OF xy_y probe_columns(2)] small_ux_def
        option.map list.map nth_Cons_0 nth_Cons_Suc One_nat_def value32_small fsub_small)
  ultimately show ?thesis
    using probe_columns by simp
qed

text \<open>
  C4, amended. For every input point with \<open>y\<close>-coordinate \<open>y\<close> and every network output,
  the inlet residual is the binary32 difference of the output field \<open>ux\<close> and \<open>v\<close>, where
  \<open>v\<close> is \<open>2 (1 - y\<^sup>2)\<close> evaluated in binary32 arithmetic (the square, the subtraction
  from \<open>1\<close> and the multiplication by \<open>2\<close>, each rounded); for a binary32 number \<open>ux\<close>
  it is zero if and only if the predicted \<open>ux\<close> equals that computed \<open>v\<close>.
\<close>

theorem inlet32_residual:
  assumes "column_of input ''y'' = Some y" and "column_of output ''ux'' = Some ux"
    and "is_float32 (ux p)"
  shows "inlet32_at input output p = Some [fsub (Num (ux p)) (value32 (y p))] \<and>
         (inlet32_at input output p = Some [Num 0] \<longleftrightarrow> value32 (y p) = Num (ux p))"
  by (simp add: inlet32_at_def inlet32_value [OF assms(1,2)]
      fsub_value32_zero_iff [OF assms(3)])

theorem inlet32_residual_witness:
  "column_of xy ''y'' = Some (\<lambda>p. p ! 1) \<and>
   column_of probe_output ''ux'' = Some probe_ux \<and>
   is_float32 (probe_ux [- 2, 4097 / 8192]) \<and>
   in_region ''gamma_in'' (sample_point xy [- 2, 4097 / 8192]) \<and>
   value32 (4097 / 8192) = Num (6143 / 4096) \<and>
   inlet32_at xy probe_output [- 2, 4097 / 8192] = Some [Num 0]"
proof -
  have f: "is_float32 (probe_ux [- 2, 4097 / 8192])"
    using is_float32_probe by (simp add: probe_ux_def)
  have v: "value32 ([- 2, 4097 / 8192] ! 1) = Num (probe_ux [- 2, 4097 / 8192])"
    by (simp add: value32_probe probe_ux_def)
  have r: "in_region ''gamma_in'' (sample_point xy [- 2, 4097 / 8192])"
    by (rule gamma_in_point) simp_all
  from inlet32_residual [OF xy_y probe_columns(1) f] v
  have z: "inlet32_at xy probe_output [- 2, 4097 / 8192] = Some [Num 0]"
    by blast
  show ?thesis
    using xy_y probe_columns(1) f r value32_probe z by (intro conjI)
qed

text \<open>
  C5. For every input point and network output, the continuity residual is the scalar
  divergence of the velocity field \<open>(ux, uy)\<close> with respect to the input coordinates;
  it is zero if and only if the velocity field is divergence-free at that point.
\<close>

theorem continuity_residual:
  assumes "column_of output ''ux'' = Some ux" and "column_of output ''uy'' = Some uy"
    and "length (labels input) = 2"
  shows "continuity input output = Some [divergence2 ux uy] \<and>
         (residual_at continuity input output p = Some [0] \<longleftrightarrow> divergence2 ux uy p = 0)"
  by (simp add: residual_at_def row_def continuity_value [OF assms])

theorem continuity_residual_witness:
  "column_of parabolic_output ''ux'' = Some parabolic_ux \<and>
   column_of parabolic_output ''uy'' = Some zero_column \<and>
   length (labels xy) = 2 \<and>
   continuity xy parabolic_output = Some [divergence2 parabolic_ux zero_column] \<and>
   divergence2 parabolic_ux zero_column [0, 0] = 0"
  using continuity_residual [OF parabolic_columns(1,2) xy_two, of "[0, 0]"]
    parabolic_columns(1,2) xy_two parabolic_continuity [of "[0, 0]"]
  by simp

text \<open>
  C6. For every input point and network output, the outlet residual is the pressure
  output \<open>p\<close> minus \<open>0\<close>; it is zero if and only if the predicted pressure is zero.
\<close>

theorem outlet_residual:
  assumes "column_of output ''p'' = Some pr"
  shows "residual_at outlet input output p = Some [pr p - 0] \<and>
         (residual_at outlet input output p = Some [0] \<longleftrightarrow> pr p = 0)"
  by (simp add: residual_at_def row_def outlet_value [OF assms])

theorem outlet_residual_witness:
  "column_of unit_output ''p'' = Some zero_column \<and>
   in_region ''gamma_out'' (sample_point xy [2, 0]) \<and>
   residual_at outlet xy unit_output [2, 0] = Some [0]"
  using outlet_residual [OF unit_columns(3), of xy "[2, 0]"] unit_columns(3)
  by (simp add: in_region_simps sample_point_xy zero_column_def)

text \<open>
  C7. The region of every condition of the conditions mapping lies in the spatial
  domain: each of its points has \<open>x\<close> in \<open>[-2, 2]\<close> and \<open>y\<close> in \<open>[-1, 1]\<close>.
\<close>

theorem regions_within_domain:
  assumes "conditions Stokes name = Some c" and "in_span (location c) pt"
  shows "in_span (spatial_domain Stokes) pt \<and>
         (\<exists>x y. pt ''x'' = Some x \<and> pt ''y'' = Some y \<and>
                - 2 \<le> x \<and> x \<le> 2 \<and> - 1 \<le> y \<and> y \<le> 1)"
proof -
  have "in_region name pt"
    using assms by (simp add: in_region_def)
  moreover have "name \<in> {''gamma_top'', ''gamma_bot'', ''gamma_out'', ''gamma_in'', ''D''}"
    using assms(1) by (rule conditions_cases)
  ultimately have "\<exists>x y. pt ''x'' = Some x \<and> pt ''y'' = Some y \<and>
                - 2 \<le> x \<and> x \<le> 2 \<and> - 1 \<le> y \<and> y \<le> 1"
    by (auto simp add: in_region_simps)
  then show ?thesis
    by (simp add: domain_span)
qed

theorem regions_within_domain_witness:
  "conditions Stokes ''gamma_top'' =
     Some \<lparr>location = [(''x'', Range (-2) 2), (''y'', Fixed 1)], cond_function = Single wall\<rparr> \<and>
   in_span [(''x'', Range (-2) 2), (''y'', Fixed 1)] [''x'' \<mapsto> 0, ''y'' \<mapsto> 1] \<and>
   in_span (spatial_domain Stokes) [''x'' \<mapsto> 0, ''y'' \<mapsto> 1]"
proof -
  have h: "in_span (location \<lparr>location = [(''x'', Range (-2) 2), (''y'', Fixed 1)],
                              cond_function = Single wall\<rparr>) [''x'' \<mapsto> 0, ''y'' \<mapsto> 1]"
    by (simp add: in_span_xy)
  show ?thesis
    using regions_within_domain [OF dict_lookups(1) h] dict_lookups(1) h by simp
qed

text \<open>
  C8. The conditions mapping has exactly the five names \<open>gamma_top\<close>,
  \<open>gamma_bot\<close>, \<open>gamma_out\<close>, \<open>gamma_in\<close> and \<open>D\<close>, no two of which collide;
  the four boundary conditions pair their region with the one residual function
  \<open>wall\<close>, \<open>wall\<close>, \<open>outlet\<close> and \<open>inlet\<close>, and \<open>D\<close> pairs the interior
  region with the list of \<open>momentum\<close> and \<open>continuity\<close>.
\<close>

theorem conditions_mapping:
  "map fst conditions_items = [''gamma_top'', ''gamma_bot'', ''gamma_out'', ''gamma_in'', ''D''] \<and>
   distinct (map fst conditions_items) \<and>
   dom (conditions Stokes) = {''gamma_top'', ''gamma_bot'', ''gamma_out'', ''gamma_in'', ''D''} \<and>
   card (dom (conditions Stokes)) = 5 \<and>
   conditions Stokes ''gamma_top'' =
     Some \<lparr>location = [(''x'', Range (-2) 2), (''y'', Fixed 1)], cond_function = Single wall\<rparr> \<and>
   conditions Stokes ''gamma_bot'' =
     Some \<lparr>location = [(''x'', Range (-2) 2), (''y'', Fixed (-1))], cond_function = Single wall\<rparr> \<and>
   conditions Stokes ''gamma_out'' =
     Some \<lparr>location = [(''x'', Fixed 2), (''y'', Range (-1) 1)], cond_function = Single outlet\<rparr> \<and>
   conditions Stokes ''gamma_in'' =
     Some \<lparr>location = [(''x'', Fixed (-2)), (''y'', Range (-1) 1)], cond_function = Single inlet\<rparr> \<and>
   conditions Stokes ''D'' =
     Some \<lparr>location = [(''x'', Range (-2) 2), (''y'', Range (-1) 1)],
           cond_function = Several [momentum, continuity]\<rparr>"
proof -
  have "map fst conditions_items = [''gamma_top'', ''gamma_bot'', ''gamma_out'', ''gamma_in'', ''D'']"
    by (simp add: conditions_items_def)
  moreover from this have "distinct (map fst conditions_items)"
    by simp
  moreover have "card (dom (conditions Stokes)) = 5"
    by (simp add: conditions_dom)
  ultimately show ?thesis
    using conditions_dom dict_lookups by simp
qed

text \<open>
  C10. The region of the condition \<open>D\<close> is the whole spatial domain, boundary
  included, so the residuals \<open>momentum\<close> and \<open>continuity\<close> that \<open>D\<close> lists are also
  enforced at every point of a boundary region, corners included.
\<close>

theorem interior_region_is_domain:
  "(\<exists>d. conditions Stokes ''D'' = Some d \<and> location d = spatial_domain Stokes \<and>
        cond_function d = Several [momentum, continuity]) \<and>
   (in_region ''D'' pt \<longleftrightarrow> in_span (spatial_domain Stokes) pt) \<and>
   (in_region ''D'' pt \<longleftrightarrow>
      (\<exists>x y. pt ''x'' = Some x \<and> pt ''y'' = Some y \<and>
             - 2 \<le> x \<and> x \<le> 2 \<and> - 1 \<le> y \<and> y \<le> 1)) \<and>
   (in_region ''gamma_top'' pt \<or> in_region ''gamma_bot'' pt \<or>
    in_region ''gamma_out'' pt \<or> in_region ''gamma_in'' pt \<longrightarrow> in_region ''D'' pt)"
proof (intro conjI)
  show "\<exists>d. conditions Stokes ''D'' = Some d \<and> location d = spatial_domain Stokes \<and>
        cond_function d = Several [momentum, continuity]"
    by (simp add: dict_lookups) (simp add: Stokes_def)
  show "in_region ''D'' pt \<longleftrightarrow> in_span (spatial_domain Stokes) pt"
    by (simp add: in_region_simps domain_span)
  show "in_region ''D'' pt \<longleftrightarrow>
      (\<exists>x y. pt ''x'' = Some x \<and> pt ''y'' = Some y \<and>
             - 2 \<le> x \<and> x \<le> 2 \<and> - 1 \<le> y \<and> y \<le> 1)"
    by (rule in_region_simps)
  show "in_region ''gamma_top'' pt \<or> in_region ''gamma_bot'' pt \<or>
    in_region ''gamma_out'' pt \<or> in_region ''gamma_in'' pt \<longrightarrow> in_region ''D'' pt"
    by (auto simp add: in_region_simps)
qed

theorem interior_region_is_domain_witness:
  "in_region ''gamma_top'' [''x'' \<mapsto> - 2, ''y'' \<mapsto> 1] \<and>
   in_region ''gamma_in'' [''x'' \<mapsto> - 2, ''y'' \<mapsto> 1] \<and>
   in_region ''D'' [''x'' \<mapsto> - 2, ''y'' \<mapsto> 1] \<and>
   in_span (spatial_domain Stokes) [''x'' \<mapsto> - 2, ''y'' \<mapsto> 1]"
proof -
  have a: "in_region ''gamma_top'' [''x'' \<mapsto> - 2, ''y'' \<mapsto> 1]"
    and b: "in_region ''gamma_in'' [''x'' \<mapsto> - 2, ''y'' \<mapsto> 1]"
    by (simp_all add: in_region_simps)
  show ?thesis
    using interior_region_is_domain [of "[''x'' \<mapsto> - 2, ''y'' \<mapsto> 1]"] a b by blast
qed

end
